theory Spec2Isabelle
  imports Complex_Main "HOL-Library.Char_ord" "HOL-Library.List_Lexorder"
begin

section \<open>JavaScript values and plain objects\<close>

text \<open>
  The values this layer stores and compares. Numbers are modelled as integers (ids, page
  numbers, page sizes, counts); \<open>JRef\<close> is a reference to a nested object or array,
  which the layer never looks into, so only its identity matters.
\<close>

datatype jsval = JUndefined | JNull | JBool bool | JNum int | JStr string | JRef nat

text \<open>
  A plain object is its own properties in insertion order. Property names are unique in
  an object built with \<open>obj_put\<close>; a lookup in a list that repeats a name reads the
  first entry.
\<close>

type_synonym jsobj = "(string \<times> jsval) list"

definition obj_get :: "jsobj \<Rightarrow> string \<Rightarrow> jsval" where
  "obj_get obj k = (case map_of obj k of None \<Rightarrow> JUndefined | Some v \<Rightarrow> v)"

definition obj_has :: "jsobj \<Rightarrow> string \<Rightarrow> bool" where
  "obj_has obj k = (map_of obj k \<noteq> None)"

fun obj_put :: "string \<Rightarrow> jsval \<Rightarrow> jsobj \<Rightarrow> jsobj" where
  "obj_put k v [] = [(k, v)]"
| "obj_put k v ((k', v') # rest) =
     (if k' = k then (k, v) # rest else (k', v') # obj_put k v rest)"

definition obj_keys :: "jsobj \<Rightarrow> string list" where
  "obj_keys obj = map fst obj"

text \<open>
  \<open>Object.assign(target, source)\<close>: for each own key of the source, in order, the
  value read from the source is written to the target.
\<close>

definition obj_assign :: "jsobj \<Rightarrow> jsobj \<Rightarrow> jsobj" where
  "obj_assign target source =
     fold (\<lambda>key. obj_put key (obj_get source key)) (obj_keys source) target"

text \<open>Truthiness, as \<open>if (x)\<close> and \<open>!x\<close> read a value.\<close>

fun truthy :: "jsval \<Rightarrow> bool" where
  "truthy JUndefined = False"
| "truthy JNull = False"
| "truthy (JBool b) = b"
| "truthy (JNum n) = (n \<noteq> 0)"
| "truthy (JStr s) = (s \<noteq> [])"
| "truthy (JRef r) = True"

text \<open>\<open>String(v)\<close>, which is also how a value becomes a property name.\<close>

fun digits :: "nat \<Rightarrow> string" where
  "digits n =
     (if n < 10 then [''0123456789'' ! n]
      else digits (n div 10) @ [''0123456789'' ! (n mod 10)])"

declare digits.simps [simp del]

fun String_of :: "jsval \<Rightarrow> string" where
  "String_of JUndefined = ''undefined''"
| "String_of JNull = ''null''"
| "String_of (JBool b) = (if b then ''true'' else ''false'')"
| "String_of (JNum n) = (if n < 0 then CHR ''-'' # digits (nat (- n)) else digits (nat n))"
| "String_of (JStr s) = s"
| "String_of (JRef r) = ''[object Object]''"

section \<open>What the module takes from outside\<close>

text \<open>
  A Resource subclass supplies \<open>idKey\<close> (\<open>'id'\<close> unless overridden) and its name, from
  which \<open>kolibri.urls\<close> gives the two URL functions; \<open>JSON.stringify\<close> is the
  built-in. They are parameters of the model.
\<close>

record env =
  idKey :: string
  modelUrl :: "jsval \<Rightarrow> string"
  collectionUrl :: string
  JSON_stringify :: "jsobj \<Rightarrow> string"

section \<open>The object graph\<close>

text \<open>
  Models and Collections are objects with identity: each lives at an address of its
  heap, and a reference is the address. The parameter objects callers hand to
  \<open>getCollection\<close> are kept by reference too, so they live in a heap of plain objects.
  The two caches of the Resource, \<open>this.models\<close> and \<open>this.collections\<close>,
  and a Collection's \<open>_model_map\<close> are maps from property names to references;
  what they hold are the own properties (names inherited from \<open>Object.prototype\<close> are
  not ids or cache keys of this model).
\<close>

record model =
  attributes :: jsobj
  synced :: bool
  promises :: "nat list"

datatype js_number = Finite int | PosInfinity | NegInfinity | NaN

record collection =
  params :: nat
  models :: "nat list"
  model_map :: "string \<Rightarrow> nat option"
  own_synced :: bool
  coll_promises :: "nat list"
  page :: "int option"
  pageSize :: "int option"
  pageCount :: "js_number option"

text \<open>
  A promise is pending, fulfilled with a value or rejected with a reason. The values are
  what the code passes to \<open>resolve\<close>: \<open>this.attributes\<close>, \<open>this.data\<close>,
  \<open>response.entity\<close> and \<open>this.id\<close>; the reasons are the string of
  \<open>delete\<close> and the response a failed transport call rejects with (a handle).
\<close>

datatype pvalue = Attributes jsobj | DataList "jsobj list" | Entity jsobj | IdValue jsval

datatype reason = Message string | FailedResponse nat

datatype pstate = Pending | Fulfilled pvalue | Rejected reason

text \<open>
  The asynchronous methods, with their arguments: \<open>Model.fetch(params, force)\<close>,
  \<open>Model.save(attrs)\<close>, \<open>Model.delete()\<close> and
  \<open>Collection.fetch(extraParams, force)\<close> (holding the merged parameters, which
  the method computes when it is called).
\<close>

datatype operation =
    ModelFetch nat jsobj bool
  | ModelSave nat jsobj
  | ModelDelete nat
  | CollectionFetch nat jsobj bool



text \<open>The object handed to \<open>this.resource.client\<close>; a field left out is \<open>None\<close>.\<close>

record request =
  path :: string
  http_method :: "string option"
  req_params :: "jsobj option"
  entity :: "jsobj option"
  headers :: "(string \<times> string) list"

text \<open>
  The body of a collection response, \<open>response.entity\<close>: a primitive (\<open>null\<close> and
  \<open>undefined\<close> among them); an array of entities; an object whose \<open>results\<close> is an
  array of entities, with its \<open>count\<close> (\<open>None\<close> when it has none); any other
  object, whose \<open>results\<close> is undefined.
\<close>

datatype body =
    PrimitiveBody jsval
  | ArrayBody "jsobj list"
  | PagedBody "jsobj list" "int option"
  | ObjectBody jsobj

datatype log_entry = LogError nat | LogMalformed body

record state =
  model_heap :: "nat \<Rightarrow> model"
  next_model :: nat
  coll_heap :: "nat \<Rightarrow> collection"
  next_coll :: nat
  obj_heap :: "nat \<Rightarrow> jsobj"
  next_obj :: nat
  res_models :: "string \<Rightarrow> nat option"
  res_collections :: "string \<Rightarrow> nat option"
  promise_heap :: "nat \<Rightarrow> pstate"
  next_promise :: nat
  waiting :: "(nat \<times> nat list \<times> operation) list"
  in_flight :: "(nat \<times> operation) list"
  executed :: "(nat \<times> operation) list"
  requests :: "request list"
  logged :: "log_entry list"

definition upd_model :: "nat \<Rightarrow> (model \<Rightarrow> model) \<Rightarrow> state \<Rightarrow> state" where
  "upd_model a f s = s\<lparr>model_heap := (model_heap s)(a := f (model_heap s a))\<rparr>"

definition upd_coll :: "nat \<Rightarrow> (collection \<Rightarrow> collection) \<Rightarrow> state \<Rightarrow> state" where
  "upd_coll c f s = s\<lparr>coll_heap := (coll_heap s)(c := f (coll_heap s c))\<rparr>"

definition alloc_obj :: "jsobj \<Rightarrow> state \<Rightarrow> nat \<times> state" where
  "alloc_obj obj s =
     (next_obj s, s\<lparr>obj_heap := (obj_heap s)(next_obj s := obj), next_obj := Suc (next_obj s)\<rparr>)"

section \<open>Model: the synchronous part\<close>

text \<open>\<open>get id()\<close>: \<open>this.attributes[this.resource.idKey]\<close>.\<close>

definition Model_id :: "env \<Rightarrow> model \<Rightarrow> jsval" where
  "Model_id E m = obj_get (attributes m) (idKey E)"

text \<open>
  \<open>set(attributes)\<close>: the id, when the incoming object has one, is forced to a
  string in that object (so whoever holds the object sees the string), then the
  incoming properties are assigned onto \<open>this.attributes\<close>.
\<close>

definition force_id_string :: "env \<Rightarrow> jsobj \<Rightarrow> jsobj" where
  "force_id_string E attrs =
     (if obj_has attrs (idKey E)
      then obj_put (idKey E) (JStr (String_of (obj_get attrs (idKey E)))) attrs
      else attrs)"

definition Model_set :: "env \<Rightarrow> jsobj \<Rightarrow> model \<Rightarrow> model" where
  "Model_set E attrs m = m\<lparr>attributes := obj_assign (attributes m) (force_id_string E attrs)\<rparr>"

text \<open>\<open>new Model(data, resource)\<close>.\<close>

definition new_Model :: "env \<Rightarrow> jsobj \<Rightarrow> state \<Rightarrow> nat \<times> state" where
  "new_Model E data s =
     (let a = next_model s;
          m = Model_set E data \<lparr>attributes = [], synced = False, promises = []\<rparr>
      in (a, s\<lparr>model_heap := (model_heap s)(a := m), next_model := Suc a\<rparr>))"

section \<open>Resource: the model cache\<close>

text \<open>
  \<open>addModel(model)\<close> on an instance of Model. The id is a string whenever it is
  truthy, and it is the property name of the cache. On a cache hit the cached Model's
  \<open>set\<close> leaves the id of the incoming Model as it is, so \<open>this.models[model.id]\<close>
  read again for the return is the Model found.
\<close>

definition addModel_instance :: "env \<Rightarrow> nat \<Rightarrow> state \<Rightarrow> nat \<times> state" where
  "addModel_instance E a s =
     (let mid = Model_id E (model_heap s a) in
      if truthy mid then
        (case res_models s (String_of mid) of
           None \<Rightarrow> (a, s\<lparr>res_models := (res_models s)(String_of mid \<mapsto> a)\<rparr>)
         | Some c \<Rightarrow> (c, upd_model c (Model_set E (attributes (model_heap s a))) s))
      else (a, s))"

definition createModel :: "env \<Rightarrow> jsobj \<Rightarrow> state \<Rightarrow> nat \<times> state" where
  "createModel E data s = (let (a, s1) = new_Model E data s in addModel_instance E a s1)"

text \<open>What \<open>addModel\<close> is handed: raw data, or a Model (\<open>model instanceof Model\<close>).\<close>

datatype model_arg = Data jsobj | Instance nat

fun addModel :: "env \<Rightarrow> model_arg \<Rightarrow> state \<Rightarrow> nat \<times> state" where
  "addModel E (Data d) s = createModel E d s"
| "addModel E (Instance a) s = addModel_instance E a s"





section \<open>Collection: the synchronous part\<close>

text \<open>The body of the \<open>forEach\<close> in \<open>set(models)\<close>, then \<open>set\<close> itself.\<close>

definition Collection_set_each :: "env \<Rightarrow> nat \<Rightarrow> model_arg \<Rightarrow> state \<Rightarrow> state" where
  "Collection_set_each E c arg s =
     (let (a, s1) = addModel E arg s;
          k = String_of (Model_id E (model_heap s1 a))
      in case model_map (coll_heap s1 c) k of
           None \<Rightarrow> upd_coll c (\<lambda>col. col\<lparr>model_map := (model_map col)(k \<mapsto> a),
                                          models := models col @ [a]\<rparr>) s1
         | Some b \<Rightarrow> s1)"

datatype set_arg = Single model_arg | Several "model_arg list"

fun Collection_set :: "env \<Rightarrow> nat \<Rightarrow> set_arg \<Rightarrow> state \<Rightarrow> state" where
  "Collection_set E c (Single arg) s = fold (Collection_set_each E c) [arg] s"
| "Collection_set E c (Several args) s = fold (Collection_set_each E c) args s"


definition Collection_synced :: "state \<Rightarrow> nat \<Rightarrow> bool" where
  "Collection_synced s c =
     foldl (\<lambda>acc a. acc \<and> synced (model_heap s a)) (own_synced (coll_heap s c))
       (models (coll_heap s c))"

definition Collection_synced_update :: "bool \<Rightarrow> nat \<Rightarrow> state \<Rightarrow> state" where
  "Collection_synced_update v c s = upd_coll c (\<lambda>col. col\<lparr>own_synced := v\<rparr>) s"

text \<open>\<open>new Collection(params, data, resource)\<close>, \<open>params\<close> a reference.\<close>

definition new_Collection :: "env \<Rightarrow> nat \<Rightarrow> set_arg \<Rightarrow> state \<Rightarrow> nat \<times> state" where
  "new_Collection E p data s =
     (let c = next_coll s;
          col = \<lparr>params = p, models = [], model_map = Map.empty, own_synced = False,
                 coll_promises = [], page = None, pageSize = None, pageCount = None\<rparr>;
          s1 = s\<lparr>coll_heap := (coll_heap s)(c := col), next_coll := Suc c\<rparr>
      in (c, Collection_set E c data s1))"

section \<open>Resource: the collection cache\<close>

text \<open>
  The cache key of \<open>getCollection\<close>: the keys of \<open>params\<close> sorted, one
  single-property object per key assigned in that order onto an empty object, and the
  result stringified.
\<close>

definition collection_key :: "env \<Rightarrow> jsobj \<Rightarrow> string" where
  "collection_key E ps =
     JSON_stringify E
       (fold (\<lambda>single target. obj_assign target single)
          (map (\<lambda>paramKey. [(paramKey, obj_get ps paramKey)]) (sort (obj_keys ps))) [])"

text \<open>
  \<open>getCollection(params = {}, data = [])\<close>: \<open>None\<close> for \<open>params\<close> is the
  argument left out, for which a fresh empty object is made.
\<close>

definition getCollection :: "env \<Rightarrow> nat option \<Rightarrow> set_arg \<Rightarrow> state \<Rightarrow> nat \<times> state" where
  "getCollection E ps data s =
     (let (p, s0) = (case ps of None \<Rightarrow> alloc_obj [] s | Some p \<Rightarrow> (p, s));
          key = collection_key E (obj_heap s0 p)
      in case res_collections s0 key of
           None \<Rightarrow>
             (let (c, s1) = new_Collection E p data s0
              in (c, s1\<lparr>res_collections := (res_collections s1)(key \<mapsto> c)\<rparr>))
         | Some c \<Rightarrow> (c, s0))"

text \<open>
  \<open>getPagedCollection(params = {}, pageSize = 20, page = 1)\<close>, with the object
  literal \<open>{ page, page_size: pageSize }\<close> it assigns onto \<open>params\<close>.
\<close>

definition paged_params :: "int option \<Rightarrow> int option \<Rightarrow> jsobj" where
  "paged_params pageSize_arg page_arg =
     [(''page'', JNum (case page_arg of None \<Rightarrow> 1 | Some n \<Rightarrow> n)),
      (''page_size'', JNum (case pageSize_arg of None \<Rightarrow> 20 | Some n \<Rightarrow> n))]"

definition getPagedCollection ::
  "env \<Rightarrow> nat option \<Rightarrow> int option \<Rightarrow> int option \<Rightarrow> state \<Rightarrow> nat \<times> state" where
  "getPagedCollection E ps pageSize_arg page_arg s =
     (let psize = (case pageSize_arg of None \<Rightarrow> 20 | Some n \<Rightarrow> n);
          pg = (case page_arg of None \<Rightarrow> 1 | Some n \<Rightarrow> n);
          (p, s0) = (case ps of None \<Rightarrow> alloc_obj [] s | Some p \<Rightarrow> (p, s));
          s1 = s0\<lparr>obj_heap := (obj_heap s0)
                 (p := obj_assign (obj_heap s0 p) (paged_params pageSize_arg page_arg))\<rparr>;
          (c, s2) = getCollection E (Some p) (Several []) s1
      in (c, upd_coll c (\<lambda>col. col\<lparr>page := Some pg, pageSize := Some psize\<rparr>) s2))"

section \<open>Promises\<close>










section \<open>Calling an asynchronous method\<close>






section \<open>The callbacks of Model\<close>









text \<open>
  (\<open>resolve(response.entity)\<close>: the entity is the object \<open>set\<close> was given, so its
  id is the string by then.)
\<close>



section \<open>The callbacks of Collection\<close>





section \<open>Scheduling\<close>






section \<open>A Resource and its first state\<close>

text \<open>
  \<open>new Resource(kolibri)\<close>: both caches empty, nothing allocated. What the heaps hold
  at an address not yet allocated is never read.
\<close>

definition initial_state :: state where
  "initial_state =
     \<lparr>model_heap = (\<lambda>a. \<lparr>attributes = [], synced = False, promises = []\<rparr>), next_model = 0,
      coll_heap = (\<lambda>c. \<lparr>params = 0, models = [], model_map = Map.empty, own_synced = False,
                        coll_promises = [], page = None, pageSize = None, pageCount = None\<rparr>),
      next_coll = 0, obj_heap = (\<lambda>a. []), next_obj = 0,
      res_models = Map.empty, res_collections = Map.empty,
      promise_heap = (\<lambda>p. Pending), next_promise = 0,
      waiting = [], in_flight = [], executed = [], requests = [], logged = []\<rparr>"

text \<open>An environment for the examples: ids under \<open>'id'\<close>, a flat serialiser.\<close>

definition example_env :: env where
  "example_env =
     \<lparr>idKey = ''id'', modelUrl = (\<lambda>i. ''/api/item/'' @ String_of i),
      collectionUrl = ''/api/item/'',
      JSON_stringify = (\<lambda>obj. concat (map (\<lambda>(k, v). k @ '':'' @ String_of v @ '','') obj))\<rparr>"

text \<open>Two parameter objects holding the same pairs in different orders.\<close>

definition params_state :: state where
  "params_state =
     snd (alloc_obj [(''a'', JNum 1), (''b'', JNum 2)]
       (snd (alloc_obj [(''b'', JNum 2), (''a'', JNum 1)] initial_state)))"

text \<open>A Collection of two Models, made from data, then marked synced with its members.\<close>

definition members_state :: state where
  "members_state =
     upd_model 1 (\<lambda>m. m\<lparr>synced := True\<rparr>)
       (upd_model 0 (\<lambda>m. m\<lparr>synced := True\<rparr>)
         (Collection_synced_update True 0
           (snd (getCollection example_env None
                  (Several [Data [(''id'', JNum 1)], Data [(''id'', JNum 2)]]) initial_state))))"

text \<open>After a first \<open>getPagedCollection\<close>, called with the first of the two objects.\<close>

definition paged_state :: state where
  "paged_state = snd (getPagedCollection example_env (Some 0) None None params_state)"

section \<open>Notions the properties are stated with\<close>






section \<open>Example states\<close>

























section \<open>The queues of the instances\<close>
























section \<open>The states a program reaches\<close>






section \<open>Plain objects\<close>

lemma map_of_obj_put: "map_of (obj_put k v obj) = (map_of obj)(k \<mapsto> v)"
  by (induction obj) (auto simp: fun_eq_iff)



lemma map_of_fold_obj_put:
  "map_of (fold (\<lambda>key. obj_put key (f key)) ks target) =
     (\<lambda>x. if x \<in> set ks then Some (f x) else map_of target x)"
  by (induction ks arbitrary: target) (auto simp: map_of_obj_put fun_eq_iff)

lemma map_of_obj_assign: "map_of (obj_assign target src) = map_of target ++ map_of src"
proof (rule ext)
  fix x
  show "map_of (obj_assign target src) x = (map_of target ++ map_of src) x"
  proof (cases "map_of src x")
    case None
    then have "x \<notin> set (map fst src)"
      by (simp add: map_of_eq_None_iff)
    then show ?thesis
      using None by (simp add: obj_assign_def map_of_fold_obj_put obj_keys_def map_add_def)
  next
    case (Some v)
    then have "x \<in> set (map fst src)"
      by (metis map_of_eq_None_iff option.distinct(1) set_map)
    then show ?thesis
      using Some
      by (simp add: obj_assign_def map_of_fold_obj_put obj_keys_def obj_get_def map_add_def)
  qed
qed



section \<open>What the synchronous methods leave alone\<close>

lemma addModel_instance_frame:
  "obj_heap (snd (addModel_instance E a s)) = obj_heap s"
  "res_collections (snd (addModel_instance E a s)) = res_collections s"
  "coll_heap (snd (addModel_instance E a s)) = coll_heap s"
  "next_coll (snd (addModel_instance E a s)) = next_coll s"
  by (simp_all add: addModel_instance_def upd_model_def Let_def split: option.splits)

lemma createModel_frame:
  "obj_heap (snd (createModel E d s)) = obj_heap s"
  "res_collections (snd (createModel E d s)) = res_collections s"
  "coll_heap (snd (createModel E d s)) = coll_heap s"
  "next_coll (snd (createModel E d s)) = next_coll s"
  by (simp_all add: createModel_def new_Model_def addModel_instance_frame Let_def
      split: prod.splits)

lemma addModel_frame:
  "obj_heap (snd (addModel E arg s)) = obj_heap s"
  "res_collections (snd (addModel E arg s)) = res_collections s"
  "coll_heap (snd (addModel E arg s)) = coll_heap s"
  "next_coll (snd (addModel E arg s)) = next_coll s"
  by (cases arg; simp add: createModel_frame addModel_instance_frame)+

lemma Collection_set_each_frame:
  "obj_heap (Collection_set_each E c arg s) = obj_heap s"
  "res_collections (Collection_set_each E c arg s) = res_collections s"
  "next_coll (Collection_set_each E c arg s) = next_coll s"
  "params (coll_heap (Collection_set_each E c arg s) c') = params (coll_heap s c')"
  using addModel_frame [of E arg s]
  by (auto simp: Collection_set_each_def upd_coll_def Let_def split: prod.splits option.splits)

lemma fold_Collection_set_each_frame:
  "obj_heap (fold (Collection_set_each E c) args s) = obj_heap s"
  "res_collections (fold (Collection_set_each E c) args s) = res_collections s"
  "next_coll (fold (Collection_set_each E c) args s) = next_coll s"
  "params (coll_heap (fold (Collection_set_each E c) args s) c') = params (coll_heap s c')"
  by (induction args arbitrary: s; simp add: Collection_set_each_frame)+

lemma Collection_set_frame:
  "obj_heap (Collection_set E c d s) = obj_heap s"
  "res_collections (Collection_set E c d s) = res_collections s"
  "next_coll (Collection_set E c d s) = next_coll s"
  "params (coll_heap (Collection_set E c d s) c') = params (coll_heap s c')"
  by (cases d; simp add: fold_Collection_set_each_frame Collection_set_each_frame)+

lemma new_Collection_frame:
  "fst (new_Collection E p d s) = next_coll s"
  "obj_heap (snd (new_Collection E p d s)) = obj_heap s"
  "res_collections (snd (new_Collection E p d s)) = res_collections s"
  "params (coll_heap (snd (new_Collection E p d s)) c') =
     (if c' = next_coll s then p else params (coll_heap s c'))"
  by (simp_all add: new_Collection_def Let_def Collection_set_frame)

section \<open>The collection cache\<close>



lemma getCollection_Some:
  "getCollection E (Some p) d s =
     (case res_collections s (collection_key E (obj_heap s p)) of
        None \<Rightarrow> (next_coll s,
                  (snd (new_Collection E p d s))
                    \<lparr>res_collections :=
                       (res_collections s)(collection_key E (obj_heap s p) \<mapsto> next_coll s)\<rparr>)
      | Some c \<Rightarrow> (c, s))"
  using new_Collection_frame(1,3) [of E p d s]
  by (auto simp: getCollection_def Let_def split: option.splits prod.splits)




section \<open>The derived synced state of a Collection\<close>

lemma foldl_conj: "foldl (\<lambda>acc a. acc \<and> P a) b xs = (b \<and> (\<forall>a\<in>set xs. P a))"
  by (induction xs arbitrary: b) auto

text \<open>
  C8. Reading \<open>synced\<close> of a Collection gives true exactly when its own flag is true
  and the \<open>synced\<close> flag of every member Model is true. Writing \<open>synced\<close> sets the own
  flag and nothing of the members. Setting the flag of a member to false makes the
  derived state false, and setting it back to true, with the own flag and the other
  members as they were, makes it true again.
\<close>

theorem Collection_synced_derived:
  "Collection_synced s c =
     (own_synced (coll_heap s c) \<and> (\<forall>a\<in>set (models (coll_heap s c)). synced (model_heap s a)))
   \<and> own_synced (coll_heap (Collection_synced_update v c s) c) = v
   \<and> models (coll_heap (Collection_synced_update v c s) c) = models (coll_heap s c)
   \<and> model_heap (Collection_synced_update v c s) = model_heap s
   \<and> (a \<in> set (models (coll_heap s c)) \<longrightarrow>
        \<not> Collection_synced (upd_model a (\<lambda>m. m\<lparr>synced := False\<rparr>) s) c)
   \<and> (a \<in> set (models (coll_heap s c)) \<and> Collection_synced s c \<longrightarrow>
        Collection_synced
          (upd_model a (\<lambda>m. m\<lparr>synced := True\<rparr>) (upd_model a (\<lambda>m. m\<lparr>synced := False\<rparr>) s)) c)"
  by (auto simp: Collection_synced_def Collection_synced_update_def upd_coll_def upd_model_def
      foldl_conj)

lemma members_state_facts:
  "models (coll_heap members_state 0) = [0, Suc 0]"
  "own_synced (coll_heap members_state 0)"
  "synced (model_heap members_state 0)"
  "synced (model_heap members_state (Suc 0))"
  by (simp_all add: members_state_def getCollection_def alloc_obj_def initial_state_def
      example_env_def collection_key_def new_Collection_def Collection_set_each_def
      createModel_def new_Model_def addModel_instance_def Model_set_def force_id_string_def
      Model_id_def obj_get_def obj_has_def obj_assign_def obj_keys_def upd_coll_def
      upd_model_def Collection_synced_update_def Let_def digits.simps)

theorem Collection_synced_derived_witness:
  "models (coll_heap members_state 0) = [0, Suc 0]
   \<and> Collection_synced members_state 0
   \<and> \<not> Collection_synced (upd_model (Suc 0) (\<lambda>m. m\<lparr>synced := False\<rparr>) members_state) 0
   \<and> Collection_synced
        (upd_model (Suc 0) (\<lambda>m. m\<lparr>synced := True\<rparr>)
          (upd_model (Suc 0) (\<lambda>m. m\<lparr>synced := False\<rparr>) members_state)) 0
   \<and> \<not> Collection_synced (Collection_synced_update False 0 members_state) 0"
  using Collection_synced_derived [of members_state 0 False "Suc 0"]
    Collection_synced_derived [of "Collection_synced_update False 0 members_state" 0 False 0]
  by (simp add: members_state_facts)

section \<open>Paged collections and the parameter object\<close>

lemma getPagedCollection_Some:
  "getPagedCollection E (Some p) a b s =
     (let s1 = s\<lparr>obj_heap := (obj_heap s)(p := obj_assign (obj_heap s p) (paged_params a b))\<rparr>;
          r = getCollection E (Some p) (Several []) s1
      in (fst r, upd_coll (fst r)
           (\<lambda>col. col\<lparr>page := Some (case b of None \<Rightarrow> 1 | Some n \<Rightarrow> n),
                        pageSize := Some (case a of None \<Rightarrow> 20 | Some n \<Rightarrow> n)\<rparr>) (snd r)))"
  by (simp add: getPagedCollection_def Let_def split: prod.splits)

lemma params_state_facts:
  "obj_heap params_state 0 = [(''b'', JNum 2), (''a'', JNum 1)]"
  "obj_heap params_state (Suc 0) = [(''a'', JNum 1), (''b'', JNum 2)]"
  "res_collections params_state = Map.empty"
  "next_coll params_state = 0"
  by (simp_all add: params_state_def alloc_obj_def initial_state_def)

lemma example_keys:
  "collection_key example_env
     [(''b'', JNum 2), (''a'', JNum 1), (''page'', JNum 1), (''page_size'', JNum 20)]
     = ''a:1,b:2,page:1,page_size:20,''"
  "collection_key example_env
     [(''a'', JNum 1), (''b'', JNum 2), (''page'', JNum 1), (''page_size'', JNum 20)]
     = ''a:1,b:2,page:1,page_size:20,''"
  by (simp_all add: collection_key_def example_env_def obj_keys_def obj_get_def obj_assign_def
      digits.simps)

lemma paged_state_facts:
  "obj_heap paged_state 0
     = [(''b'', JNum 2), (''a'', JNum 1), (''page'', JNum 1), (''page_size'', JNum 20)]"
  "obj_heap paged_state (Suc 0) = [(''a'', JNum 1), (''b'', JNum 2)]"
  "res_collections paged_state ''a:1,b:2,page:1,page_size:20,'' = Some 0"
  "params (coll_heap paged_state 0) = 0"
  by (simp_all add: paged_state_def getPagedCollection_Some getCollection_Some
      params_state_facts paged_params_def obj_assign_def obj_keys_def obj_get_def example_keys
      new_Collection_def upd_coll_def Let_def)

text \<open>
  C10, as the claim states it, fails when the cache already holds a Collection under
  the key: called with a second object that has the same properties as the first,
  \<open>getPagedCollection\<close> returns the cached Collection, whose \<open>params\<close> is the first
  object and not the one this call was given.
\<close>

theorem getPagedCollection_params_counterexample:
  "params (coll_heap (snd (getPagedCollection example_env (Some (Suc 0)) None None paged_state))
            (fst (getPagedCollection example_env (Some (Suc 0)) None None paged_state)))
     \<noteq> Suc 0"
  by (simp add: getPagedCollection_Some getCollection_Some paged_state_facts
      paged_params_def obj_assign_def obj_keys_def obj_get_def example_keys upd_coll_def Let_def)

text \<open>
  C10, amended. \<open>getPagedCollection(params, pageSize, page)\<close> assigns \<open>page\<close> and
  \<open>page_size\<close> onto the caller's object in place, before it looks the key up. When no
  Collection is cached under the key of the object so changed, the Collection it makes
  and returns holds that same object as its \<open>params\<close>, by reference. When one is
  cached, that one is returned, and its \<open>params\<close> is the reference it already had.
\<close>

theorem getPagedCollection_params:
  fixes E p a b s
  defines "r \<equiv> getPagedCollection E (Some p) a b s"
  defines "mutated \<equiv> obj_assign (obj_heap s p) (paged_params a b)"
  shows "obj_heap (snd r) p = mutated
       \<and> obj_has (obj_heap (snd r) p) ''page'' \<and> obj_has (obj_heap (snd r) p) ''page_size''
       \<and> (res_collections s (collection_key E mutated) = None \<longrightarrow>
            fst r = next_coll s \<and> params (coll_heap (snd r) (fst r)) = p)
       \<and> (\<forall>c0. res_collections s (collection_key E mutated) = Some c0 \<longrightarrow>
            fst r = c0 \<and> params (coll_heap (snd r) (fst r)) = params (coll_heap s c0))"
proof -
  have has: "obj_has mutated ''page''" "obj_has mutated ''page_size''"
    by (simp_all add: mutated_def obj_has_def map_of_obj_assign paged_params_def)
  show ?thesis
    using has
    by (auto simp: r_def mutated_def getPagedCollection_Some getCollection_Some Let_def
        upd_coll_def new_Collection_frame split: option.splits)
qed

theorem getPagedCollection_params_witness:
  "obj_heap (snd (getPagedCollection example_env (Some 0) None None params_state)) 0
     = [(''b'', JNum 2), (''a'', JNum 1), (''page'', JNum 1), (''page_size'', JNum 20)]
   \<and> params (coll_heap (snd (getPagedCollection example_env (Some 0) None None params_state))
        (fst (getPagedCollection example_env (Some 0) None None params_state))) = 0
   \<and> obj_heap (snd (getPagedCollection example_env (Some (Suc 0)) None None paged_state)) (Suc 0)
     = [(''a'', JNum 1), (''b'', JNum 2), (''page'', JNum 1), (''page_size'', JNum 20)]
   \<and> fst (getPagedCollection example_env (Some (Suc 0)) None None paged_state) = 0
   \<and> params (coll_heap (snd (getPagedCollection example_env (Some (Suc 0)) None None paged_state))
        (fst (getPagedCollection example_env (Some (Suc 0)) None None paged_state))) = 0"
  using getPagedCollection_params [of example_env 0 None None params_state]
    getPagedCollection_params [of example_env "Suc 0" None None paged_state]
  by (auto simp add: params_state_facts paged_state_facts paged_params_def obj_assign_def
      obj_keys_def obj_get_def example_keys)

section \<open>Frames of the small steps\<close>








section \<open>Models made from data\<close>











section \<open>The response of a collection fetch\<close>












section \<open>A malformed collection response\<close>





section \<open>The request of save\<close>








section \<open>One Model per id\<close>























section \<open>Calling and waking an operation\<close>







section \<open>Example runs, step by step\<close>


















section \<open>An unforced fetch on a synced Model\<close>




section \<open>Deleting a Model that has no id\<close>




section \<open>The queues, step by step\<close>































section \<open>The queues under the methods\<close>







































section \<open>The queues of a reachable state\<close>





















section \<open>Operations on one instance run one after the other\<close>




end
